theory Spec2Isabelle
  imports Main
begin

section \<open>Strings and numbers as the order service formats them\<close>

text \<open>
  The order service renders numbers with \<^verbatim>\<open>Number.prototype.toString()\<close> and
  pads them with \<^verbatim>\<open>String.prototype.padStart\<close>.  Only integers reach these calls
  (a year, a month index plus one, a counter plus one), so numbers are \<open>int\<close> here.
\<close>

definition digit_char :: "nat \<Rightarrow> char" where
  "digit_char d = char_of (48 + d)"

fun nat_toString :: "nat \<Rightarrow> string" where
  "nat_toString n =
     (if n < 10 then [digit_char n]
      else nat_toString (n div 10) @ [digit_char (n mod 10)])"

declare nat_toString.simps [simp del]

definition toString :: "int \<Rightarrow> string" where
  "toString i =
     (if i < 0 then CHR ''-'' # nat_toString (nat (- i)) else nat_toString (nat i))"

text \<open>\<^verbatim>\<open>s.padStart(n, c)\<close> for a one-character pad string \<open>c\<close>.\<close>

definition padStart :: "nat \<Rightarrow> char \<Rightarrow> string \<Rightarrow> string" where
  "padStart n c s = replicate (n - length s) c @ s"

text \<open>\<^verbatim>\<open>s.slice(-k)\<close>: the last \<open>k\<close> characters, the whole string when it is shorter.\<close>

definition slice_last :: "nat \<Rightarrow> string \<Rightarrow> string" where
  "slice_last k s = drop (length s - k) s"

section \<open>Dates\<close>

text \<open>
  A JavaScript \<^verbatim>\<open>Date\<close> is a count of milliseconds since 1970-01-01T00:00Z.
  \<open>civil_from_days\<close> is the proleptic Gregorian calendar of ECMAScript: the year, the
  month (1 to 12) and the day of the month of a day number.
\<close>

definition civil_from_days :: "int \<Rightarrow> int \<times> int \<times> int" where
  "civil_from_days days =
     (let z = days + 719468;
          era = z div 146097;
          doe = z mod 146097;
          yoe = (doe - doe div 1460 + doe div 36524 - doe div 146096) div 365;
          doy = doe - (365 * yoe + yoe div 4 - yoe div 100);
          mp = (5 * doy + 2) div 153;
          d = doy - (153 * mp + 2) div 5 + 1;
          m = (if mp < 10 then mp + 3 else mp - 9);
          y = yoe + era * 400
      in (if m \<le> 2 then y + 1 else y, m, d))"

definition msPerDay :: int where
  "msPerDay = 86400000"

text \<open>
  The time zone database is not part of the repository: it is a parameter, giving for a
  zone name and an instant the zone's offset from UTC in minutes (east positive).

  \<^verbatim>\<open>utcToZonedTime(date, tz)\<close> of date-fns-tz returns a \<^verbatim>\<open>Date\<close> whose local
  getters (\<^verbatim>\<open>getFullYear\<close>, \<^verbatim>\<open>getMonth\<close>, ...) read the wall clock of the zone
  \<open>tz\<close> at the instant \<open>date\<close>.  Such a value is modelled as \<open>Zoned w\<close>, with \<open>w\<close> the
  wall-clock reading in milliseconds, and the getters read the calendar fields of \<open>w\<close>.
\<close>

type_synonym tzdb = "string \<Rightarrow> int \<Rightarrow> int"

datatype zoned = Zoned int

definition utcToZonedTime :: "tzdb \<Rightarrow> int \<Rightarrow> string \<Rightarrow> zoned" where
  "utcToZonedTime tz date zone = Zoned (date + tz zone date * 60000)"

fun getFullYear :: "zoned \<Rightarrow> int" where
  "getFullYear (Zoned w) = fst (civil_from_days (w div msPerDay))"

fun getMonth :: "zoned \<Rightarrow> int" where
  "getMonth (Zoned w) = fst (snd (civil_from_days (w div msPerDay))) - 1"

definition JORDAN_TIMEZONE :: string where
  "JORDAN_TIMEZONE = ''Asia/Amman''"

text \<open>\<^verbatim>\<open>getJordanTime()\<close>; the argument \<open>clock\<close> is what \<^verbatim>\<open>new Date()\<close> reads.\<close>

definition getJordanTime :: "tzdb \<Rightarrow> int \<Rightarrow> zoned" where
  "getJordanTime tz clock = utcToZonedTime tz clock JORDAN_TIMEZONE"

section \<open>The monthly counters and the allocation of order identifiers\<close>

record counter_doc =
  count :: int
  month :: string

type_synonym counters = "string \<rightharpoonup> counter_doc"

text \<open>
  What an awaited call on the document store does is decided outside the program: it
  completes, or it throws an error with a message.
\<close>

datatype outcome = Succeeds | Throws string

text \<open>
  \<^verbatim>\<open>runTransaction(db, body)\<close>: the reads and writes of \<open>body\<close> take effect together
  when the transaction commits; when it cannot commit nothing is written and the call
  throws.
\<close>

definition runTransaction ::
  "outcome \<Rightarrow> counters \<Rightarrow> (counters \<Rightarrow> 'a \<times> counters) \<Rightarrow> (string + 'a) \<times> counters" where
  "runTransaction txn cs body =
     (case txn of
        Throws e \<Rightarrow> (Inl e, cs)
      | Succeeds \<Rightarrow> (let (r, cs') = body cs in (Inr r, cs')))"

definition COUNTERS_key :: "string \<Rightarrow> string" where
  "COUNTERS_key monthKey = ''orders_'' @ monthKey"

definition generateOrderId ::
  "tzdb \<Rightarrow> int \<Rightarrow> outcome \<Rightarrow> counters \<Rightarrow> (string + string) \<times> counters" where
  "generateOrderId tz clock txn cs =
     (let now = getJordanTime tz clock;
          year = slice_last 2 (toString (getFullYear now));
          month = padStart 2 CHR ''0'' (toString (getMonth now + 1));
          monthKey = year @ month
      in runTransaction txn cs (\<lambda>store.
           let counterRef = COUNTERS_key monthKey in
           (case store counterRef of
              Some counterDoc \<Rightarrow>
                (let currentCount = count counterDoc + 1;
                     sequence = padStart 4 CHR ''0'' (toString currentCount)
                 in (''T'' @ year @ month @ sequence,
                     store(counterRef \<mapsto> counterDoc\<lparr>count := count counterDoc + 1\<rparr>)))
            | None \<Rightarrow>
                (let currentCount = 1;
                     sequence = padStart 4 CHR ''0'' (toString currentCount)
                 in (''T'' @ year @ month @ sequence,
                     store(counterRef \<mapsto> \<lparr>count = 1, month = monthKey\<rparr>))))))"

section \<open>Orders\<close>

datatype OrderStatus =
  Submitted | Pending_review | Approved | Rejected | Processing | Completed | Cancelled

datatype OrderType = Incoming | Outgoing

record CliqDetails =
  aliasName :: "string option"
  mobileNumber :: "string option"

record RecipientDetails =
  name :: "string option"
  bank :: "string option"
  accountNumber :: "string option"
  notes_ :: "string option"

text \<open>Instants of the store (\<^verbatim>\<open>Timestamp\<close>) are milliseconds since the epoch.\<close>

record OrderTimestamps =
  created :: int
  updated :: int
  completed :: "int option"
  approved :: "int option"
  rejected :: "int option"

text \<open>
  \<^verbatim>\<open>Omit<Order, 'id' | 'orderId' | 'timestamps'>\<close>: what the caller of
  \<^verbatim>\<open>createOrder\<close> supplies.  An optional field (\<^verbatim>\<open>finalAmount?\<close>) is an option.
  Amounts are only stored and copied by the functions below, never computed with.
\<close>

record OrderData =
  exchangeId :: string
  type :: OrderType
  status :: OrderStatus
  submittedAmount :: int
  finalAmount :: "int option"
  commission :: int
  cliqDetails :: "CliqDetails option"
  recipientDetails :: "RecipientDetails option"
  bankUsed :: "string option"
  platformBankUsed :: "string option"
  screenshots :: "string list"
  adminNotes :: "string option"
  rejectionReason :: "string option"
  senderName :: "string option"

text \<open>The document of the \<^verbatim>\<open>orders\<close> collection: the caller's data and the metadata.\<close>

record OrderDoc = OrderData +
  orderId :: string
  timestamps :: OrderTimestamps

text \<open>
  \<^verbatim>\<open>Order\<close>: the document together with the identifier of the store.  The field
  \<^verbatim>\<open>id\<close> is \<open>id_\<close> here and \<^verbatim>\<open>notes\<close> of the recipient details is \<open>notes_\<close>,
  the plain names being taken.
\<close>

record Order = OrderDoc +
  id_ :: string

text \<open>
  \<^verbatim>\<open>Partial<Omit<Order, 'id' | 'orderId' | 'timestamps'>>\<close>: every key may be absent
  (\<open>None\<close>); a key that is present carries the new value of the field.
\<close>

record OrderUpdates =
  upd_exchangeId :: "string option"
  upd_type :: "OrderType option"
  upd_status :: "OrderStatus option"
  upd_submittedAmount :: "int option"
  upd_finalAmount :: "int option"
  upd_commission :: "int option"
  upd_cliqDetails :: "CliqDetails option"
  upd_recipientDetails :: "RecipientDetails option"
  upd_bankUsed :: "string option"
  upd_platformBankUsed :: "string option"
  upd_screenshots :: "string list option"
  upd_adminNotes :: "string option"
  upd_rejectionReason :: "string option"
  upd_senderName :: "string option"

text \<open>
  The object \<^verbatim>\<open>updateData\<close> handed to \<^verbatim>\<open>updateDoc\<close>: the keys of \<^verbatim>\<open>updates\<close>
  and the dotted field paths \<^verbatim>\<open>'timestamps.updated'\<close>, \<^verbatim>\<open>'timestamps.approved'\<close>,
  \<^verbatim>\<open>'timestamps.rejected'\<close>, \<^verbatim>\<open>'timestamps.completed'\<close>.
\<close>

record UpdateData =
  spread :: OrderUpdates
  ts_updated :: "int option"
  ts_approved :: "int option"
  ts_rejected :: "int option"
  ts_completed :: "int option"

record 'a ApiResponse =
  success :: bool
  data :: "'a option"
  error :: "string option"
  message :: "string option"

type_synonym orders = "string \<rightharpoonup> OrderDoc"

record world =
  counters :: counters
  orders :: orders

section \<open>Creating an order\<close>

text \<open>
  What the outside world answers during one call of \<^verbatim>\<open>createOrder\<close>: the time zone
  database, the clock read by \<^verbatim>\<open>new Date()\<close>, whether the counter transaction
  commits, the clock read by \<^verbatim>\<open>Timestamp.now()\<close>, whether \<^verbatim>\<open>addDoc\<close> completes,
  and the identifier the store gives the new document.
\<close>

record create_env =
  env_tz :: tzdb
  env_clock :: int
  env_txn :: outcome
  env_stamp :: int
  env_addDoc :: outcome
  env_docId :: string

definition failure :: "string \<Rightarrow> string \<Rightarrow> 'a ApiResponse" where
  "failure e m = \<lparr>success = False, data = None, error = Some e, message = Some m\<rparr>"

text \<open>\<^verbatim>\<open>{...orderData, orderId, timestamps: {created: now, updated: now}}\<close>\<close>

definition orderWithMetadata :: "OrderData \<Rightarrow> string \<Rightarrow> int \<Rightarrow> OrderDoc" where
  "orderWithMetadata orderData oid now =
     \<lparr>exchangeId = exchangeId orderData,
      type = type orderData,
      status = status orderData,
      submittedAmount = submittedAmount orderData,
      finalAmount = finalAmount orderData,
      commission = commission orderData,
      cliqDetails = cliqDetails orderData,
      recipientDetails = recipientDetails orderData,
      bankUsed = bankUsed orderData,
      platformBankUsed = platformBankUsed orderData,
      screenshots = screenshots orderData,
      adminNotes = adminNotes orderData,
      rejectionReason = rejectionReason orderData,
      senderName = senderName orderData,
      orderId = oid,
      timestamps =
        \<lparr>created = now, updated = now, completed = None, approved = None, rejected = None\<rparr>\<rparr>"

text \<open>\<^verbatim>\<open>{id: docSnap.id, ...data, timestamps: {...}}\<close>\<close>

definition to_Order :: "string \<Rightarrow> OrderDoc \<Rightarrow> Order" where
  "to_Order ident d =
     \<lparr>exchangeId = exchangeId d,
      type = type d,
      status = status d,
      submittedAmount = submittedAmount d,
      finalAmount = finalAmount d,
      commission = commission d,
      cliqDetails = cliqDetails d,
      recipientDetails = recipientDetails d,
      bankUsed = bankUsed d,
      platformBankUsed = platformBankUsed d,
      screenshots = screenshots d,
      adminNotes = adminNotes d,
      rejectionReason = rejectionReason d,
      senderName = senderName d,
      orderId = orderId d,
      timestamps = timestamps d,
      id_ = ident\<rparr>"

definition createOrder :: "create_env \<Rightarrow> world \<Rightarrow> OrderData \<Rightarrow> Order ApiResponse \<times> world" where
  "createOrder env w orderData =
     (case generateOrderId (env_tz env) (env_clock env) (env_txn env) (counters w) of
        (Inl e, cs) \<Rightarrow> (failure e ''Failed to create order'', w\<lparr>counters := cs\<rparr>)
      | (Inr oid, cs) \<Rightarrow>
          (let now = env_stamp env;
               doc = orderWithMetadata orderData oid now
           in (case env_addDoc env of
                 Throws e \<Rightarrow> (failure e ''Failed to create order'', w\<lparr>counters := cs\<rparr>)
               | Succeeds \<Rightarrow>
                   (\<lparr>success = True,
                     data = Some (to_Order (env_docId env) doc),
                     error = None,
                     message = Some ''Order created successfully''\<rparr>,
                    w\<lparr>counters := cs, orders := (orders w)(env_docId env \<mapsto> doc)\<rparr>))))"

section \<open>Updating an order\<close>

text \<open>
  \<^verbatim>\<open>updateDoc(docRef, updateData)\<close> of the store writes the keys of \<open>updateData\<close> into
  the existing document, a dotted key into the nested field, and leaves every other
  field as it is; it throws when the document does not exist.  \<open>set_field\<close> is the
  write of a required field, \<open>set_optional\<close> of an optional one.
\<close>

definition set_field :: "'a option \<Rightarrow> 'a \<Rightarrow> 'a" where
  "set_field new old = (case new of None \<Rightarrow> old | Some v \<Rightarrow> v)"

definition set_optional :: "'a option \<Rightarrow> 'a option \<Rightarrow> 'a option" where
  "set_optional new old = (case new of None \<Rightarrow> old | Some v \<Rightarrow> Some v)"

definition merge_update :: "UpdateData \<Rightarrow> OrderDoc \<Rightarrow> OrderDoc" where
  "merge_update u d =
     \<lparr>exchangeId = set_field (upd_exchangeId (spread u)) (exchangeId d),
      type = set_field (upd_type (spread u)) (type d),
      status = set_field (upd_status (spread u)) (status d),
      submittedAmount = set_field (upd_submittedAmount (spread u)) (submittedAmount d),
      finalAmount = set_optional (upd_finalAmount (spread u)) (finalAmount d),
      commission = set_field (upd_commission (spread u)) (commission d),
      cliqDetails = set_optional (upd_cliqDetails (spread u)) (cliqDetails d),
      recipientDetails = set_optional (upd_recipientDetails (spread u)) (recipientDetails d),
      bankUsed = set_optional (upd_bankUsed (spread u)) (bankUsed d),
      platformBankUsed = set_optional (upd_platformBankUsed (spread u)) (platformBankUsed d),
      screenshots = set_field (upd_screenshots (spread u)) (screenshots d),
      adminNotes = set_optional (upd_adminNotes (spread u)) (adminNotes d),
      rejectionReason = set_optional (upd_rejectionReason (spread u)) (rejectionReason d),
      senderName = set_optional (upd_senderName (spread u)) (senderName d),
      orderId = orderId d,
      timestamps =
        \<lparr>created = created (timestamps d),
         updated = set_field (ts_updated u) (updated (timestamps d)),
         completed = set_optional (ts_completed u) (completed (timestamps d)),
         approved = set_optional (ts_approved u) (approved (timestamps d)),
         rejected = set_optional (ts_rejected u) (rejected (timestamps d))\<rparr>\<rparr>"

definition NOT_FOUND :: string where
  "NOT_FOUND = ''No document to update''"

definition updateDoc :: "outcome \<Rightarrow> orders \<Rightarrow> string \<Rightarrow> UpdateData \<Rightarrow> (string + unit) \<times> orders" where
  "updateDoc oc os ident u =
     (case oc of
        Throws e \<Rightarrow> (Inl e, os)
      | Succeeds \<Rightarrow>
          (case os ident of
             None \<Rightarrow> (Inl NOT_FOUND, os)
           | Some d \<Rightarrow> (Inr (), os(ident \<mapsto> merge_update u d))))"

text \<open>
  \<^verbatim>\<open>getOrderById\<close>.  \<^verbatim>\<open>data: null\<close> of the source is \<open>data = None\<close>: its caller only
  tests \<^verbatim>\<open>result.data\<close> for truthiness.
\<close>

definition getOrderById :: "outcome \<Rightarrow> orders \<Rightarrow> string \<Rightarrow> Order ApiResponse" where
  "getOrderById oc os ident =
     (case oc of
        Throws e \<Rightarrow> failure e ''Failed to fetch order''
      | Succeeds \<Rightarrow>
          (case os ident of
             Some d \<Rightarrow>
               \<lparr>success = True, data = Some (to_Order ident d), error = None, message = None\<rparr>
           | None \<Rightarrow>
               \<lparr>success = True, data = None, error = None, message = Some ''Order not found''\<rparr>))"

text \<open>
  What the outside world answers during one call of \<^verbatim>\<open>updateOrder\<close>: the clock read
  by \<^verbatim>\<open>Timestamp.now()\<close>, whether \<^verbatim>\<open>updateDoc\<close> completes and whether the
  \<^verbatim>\<open>getDoc\<close> of the read-back completes.
\<close>

record update_env =
  env_now :: int
  env_updateDoc :: outcome
  env_getDoc :: outcome

definition no_updates :: OrderUpdates where
  "no_updates =
     \<lparr>upd_exchangeId = None, upd_type = None, upd_status = None, upd_submittedAmount = None,
      upd_finalAmount = None, upd_commission = None, upd_cliqDetails = None,
      upd_recipientDetails = None, upd_bankUsed = None, upd_platformBankUsed = None,
      upd_screenshots = None, upd_adminNotes = None, upd_rejectionReason = None,
      upd_senderName = None\<rparr>"

text \<open>The \<^verbatim>\<open>switch (updates.status)\<close> of \<^verbatim>\<open>updateOrder\<close>; every status is a non-empty
  string, so \<^verbatim>\<open>if (updates.status)\<close> holds exactly when the key is present.\<close>

fun stamp_status :: "OrderStatus option \<Rightarrow> int \<Rightarrow> UpdateData \<Rightarrow> UpdateData" where
  "stamp_status (Some Approved) now u = u\<lparr>ts_approved := Some now\<rparr>"
| "stamp_status (Some Rejected) now u = u\<lparr>ts_rejected := Some now\<rparr>"
| "stamp_status (Some Completed) now u = u\<lparr>ts_completed := Some now\<rparr>"
| "stamp_status _ now u = u"

text \<open>The object \<^verbatim>\<open>updateData\<close> that \<^verbatim>\<open>updateOrder\<close> builds before it calls the store.\<close>

definition build_updateData :: "OrderUpdates \<Rightarrow> int \<Rightarrow> UpdateData" where
  "build_updateData updates now =
     (let updateData =
            \<lparr>spread = updates, ts_updated = Some now, ts_approved = None,
             ts_rejected = None, ts_completed = None\<rparr>
      in stamp_status (upd_status updates) now updateData)"

definition updateOrder ::
  "update_env \<Rightarrow> world \<Rightarrow> string \<Rightarrow> OrderUpdates \<Rightarrow> Order ApiResponse \<times> world" where
  "updateOrder env w ident updates =
     (let now = env_now env;
          updateData = build_updateData updates now
      in (case updateDoc (env_updateDoc env) (orders w) ident updateData of
            (Inl e, os) \<Rightarrow> (failure e ''Failed to update order'', w\<lparr>orders := os\<rparr>)
          | (Inr _, os) \<Rightarrow>
              (let result = getOrderById (env_getDoc env) os ident
               in if success result \<and> data result \<noteq> None
                  then (\<lparr>success = True, data = data result, error = None,
                         message = Some ''Order updated successfully''\<rparr>,
                        w\<lparr>orders := os\<rparr>)
                  else (failure ''Failed to fetch updated order'' ''Failed to update order'',
                        w\<lparr>orders := os\<rparr>))))"

text \<open>\<^verbatim>\<open>if (notes)\<close>: an absent argument and the empty string are falsy.\<close>

fun truthy :: "string option \<Rightarrow> bool" where
  "truthy None = False"
| "truthy (Some s) = (s \<noteq> [])"

definition updateOrderStatus ::
  "update_env \<Rightarrow> world \<Rightarrow> string \<Rightarrow> OrderStatus \<Rightarrow> string option \<Rightarrow> Order ApiResponse \<times> world" where
  "updateOrderStatus env w ident status' notes' =
     (let updates = no_updates\<lparr>upd_status := Some status'\<rparr>;
          updates =
            (if truthy notes'
             then (if status' = Rejected
                   then updates\<lparr>upd_rejectionReason := notes'\<rparr>
                   else updates\<lparr>upd_adminNotes := notes'\<rparr>)
             else updates)
      in updateOrder env w ident updates)"

section \<open>Concrete orders and environments used in the examples\<close>

definition example_data :: OrderData where
  "example_data =
     \<lparr>exchangeId = ''userId'', type = Outgoing, status = Submitted, submittedAmount = 1000,
      finalAmount = None, commission = 20,
      cliqDetails = Some \<lparr>aliasName = None, mobileNumber = Some ''00962791234567''\<rparr>,
      recipientDetails = None, bankUsed = None, platformBankUsed = None,
      screenshots = [''url1'', ''url2''], adminNotes = None, rejectionReason = None,
      senderName = None\<rparr>"

definition example_doc :: OrderDoc where
  "example_doc = orderWithMetadata example_data ''T25060001'' 1000"

definition example_world :: world where
  "example_world = \<lparr>counters = Map.empty, orders = [''doc1'' \<mapsto> example_doc]\<rparr>"

definition store_ok :: "int \<Rightarrow> update_env" where
  "store_ok now = \<lparr>env_now = now, env_updateDoc = Succeeds, env_getDoc = Succeeds\<rparr>"

text \<open>
  A time zone database in which every zone is 180 minutes east of UTC at every instant,
  as \<open>Asia/Amman\<close> has been all year round since October 2022.
\<close>

definition amman_plus3 :: tzdb where
  "amman_plus3 zone t = 180"

definition approved_doc :: OrderDoc where
  "approved_doc =
     example_doc\<lparr>status := Approved,
       timestamps := (timestamps example_doc)\<lparr>updated := 2000, approved := Some 2000\<rparr>\<rparr>"

definition approved_world :: world where
  "approved_world = \<lparr>counters = Map.empty, orders = [''doc1'' \<mapsto> approved_doc]\<rparr>"

definition create_ok :: create_env where
  "create_ok =
     \<lparr>env_tz = amman_plus3, env_clock = 1751320800000, env_txn = Succeeds,
      env_stamp = 1751320800000, env_addDoc = Succeeds, env_docId = ''doc2''\<rparr>"

definition create_contended :: create_env where
  "create_contended = create_ok\<lparr>env_txn := Throws ''contention''\<rparr>"

section \<open>Notions used to state the properties of the allocation\<close>

text \<open>Reading a decimal string back, to state what an identifier carries.\<close>

definition digit_val :: "char \<Rightarrow> nat" where
  "digit_val c = of_char c - 48"

definition is_digit :: "char \<Rightarrow> bool" where
  "is_digit c = (48 \<le> (of_char c :: nat) \<and> (of_char c :: nat) \<le> 57)"

definition parse_nat :: "string \<Rightarrow> nat" where
  "parse_nat s = foldl (\<lambda>a c. 10 * a + digit_val c) 0 s"

text \<open>
  The two-digit year, the two-digit month and the month key that \<open>generateOrderId\<close>
  computes from the clock (its first four lines).
\<close>

definition year_digits :: "tzdb \<Rightarrow> int \<Rightarrow> string" where
  "year_digits tz clock = slice_last 2 (toString (getFullYear (getJordanTime tz clock)))"

definition month_digits :: "tzdb \<Rightarrow> int \<Rightarrow> string" where
  "month_digits tz clock =
     padStart 2 CHR ''0'' (toString (getMonth (getJordanTime tz clock) + 1))"

definition monthKey :: "tzdb \<Rightarrow> int \<Rightarrow> string" where
  "monthKey tz clock = year_digits tz clock @ month_digits tz clock"

text \<open>The value of a monthly counter; a counter that does not exist yet counts as 0.\<close>

definition current_count :: "counters \<Rightarrow> string \<Rightarrow> int" where
  "current_count cs key = (case cs key of None \<Rightarrow> 0 | Some d \<Rightarrow> count d)"

text \<open>
  A sequence of calls of \<open>generateOrderId\<close>, one after the other on the same store; each
  call comes with the clock it reads and with what its transaction does.
\<close>

fun allocations ::
  "tzdb \<Rightarrow> (int \<times> outcome) list \<Rightarrow> counters \<Rightarrow> (string + string) list \<times> counters" where
  "allocations tz [] cs = ([], cs)"
| "allocations tz ((clock, txn) # calls) cs =
     (let (r, cs1) = generateOrderId tz clock txn cs;
          (rs, cs2) = allocations tz calls cs1
      in (r # rs, cs2))"

text \<open>The identifiers returned by the calls that succeeded, in order.\<close>

fun ids_of :: "(string + string) list \<Rightarrow> string list" where
  "ids_of [] = []"
| "ids_of (Inr oid # rs) = oid # ids_of rs"
| "ids_of (Inl e # rs) = ids_of rs"

text \<open>The sequence number that an identifier of the month \<open>k\<close> carries after \<open>T\<close> and \<open>k\<close>.\<close>

definition sequence_of :: "string \<Rightarrow> string \<Rightarrow> nat" where
  "sequence_of k oid = parse_nat (drop (Suc (length k)) oid)"

text \<open>
  Four calls in July 2025 (Amman time), the first at 2025-06-30T22:00Z; the second does
  not commit.
\<close>

definition july_calls :: "(int \<times> outcome) list" where
  "july_calls =
     [(1751320800000, Succeeds), (1751320800500, Throws ''contention''),
      (1751407200000, Succeeds), (1751493600000, Succeeds)]"

section \<open>Facts about \<open>updateOrder\<close>\<close>

lemma updateOrder_throws:
  "env_updateDoc env = Throws e \<Longrightarrow>
   updateOrder env w ident updates = (failure e ''Failed to update order'', w)"
  by (simp add: updateOrder_def updateDoc_def)

lemma updateOrder_missing:
  "env_updateDoc env = Succeeds \<Longrightarrow> orders w ident = None \<Longrightarrow>
   updateOrder env w ident updates = (failure NOT_FOUND ''Failed to update order'', w)"
  by (simp add: updateOrder_def updateDoc_def)

lemma updateOrder_stored:
  "env_updateDoc env = Succeeds \<Longrightarrow> orders w ident = Some d \<Longrightarrow>
   snd (updateOrder env w ident updates) =
     w\<lparr>orders := (orders w)(ident \<mapsto> merge_update (build_updateData updates (env_now env)) d)\<rparr>"
  by (simp add: updateOrder_def updateDoc_def Let_def)

lemma updateOrder_returned:
  "env_updateDoc env = Succeeds \<Longrightarrow> env_getDoc env = Succeeds \<Longrightarrow>
   orders w ident = Some d \<Longrightarrow>
   fst (updateOrder env w ident updates) =
     \<lparr>success = True,
      data = Some (to_Order ident (merge_update (build_updateData updates (env_now env)) d)),
      error = None, message = Some ''Order updated successfully''\<rparr>"
  by (simp add: updateOrder_def updateDoc_def getOrderById_def Let_def)

lemma updateOrder_frame:
  "counters (snd (updateOrder env w ident updates)) = counters w \<and>
   (\<forall>k. k \<noteq> ident \<longrightarrow> orders (snd (updateOrder env w ident updates)) k = orders w k)"
  by (simp add: updateOrder_def updateDoc_def Let_def split: outcome.splits option.splits)

lemma updateOrder_keeps_absent:
  "orders w ident = None \<Longrightarrow> orders (snd (updateOrder env w ident updates)) ident = None"
  by (simp add: updateOrder_def updateDoc_def Let_def split: outcome.splits)

lemma spread_build [simp]: "spread (build_updateData updates now) = updates"
  by (cases "(upd_status updates, now, \<lparr>spread = updates, ts_updated = Some now,
        ts_approved = None, ts_rejected = None, ts_completed = None\<rparr>)" rule: stamp_status.cases)
     (simp_all add: build_updateData_def)

lemma ts_updated_build [simp]: "ts_updated (build_updateData updates now) = Some now"
  by (cases "(upd_status updates, now, \<lparr>spread = updates, ts_updated = Some now,
        ts_approved = None, ts_rejected = None, ts_completed = None\<rparr>)" rule: stamp_status.cases)
     (simp_all add: build_updateData_def)

lemma ts_approved_build [simp]:
  "ts_approved (build_updateData updates now) =
     (if upd_status updates = Some Approved then Some now else None)"
  by (cases "(upd_status updates, now, \<lparr>spread = updates, ts_updated = Some now,
        ts_approved = None, ts_rejected = None, ts_completed = None\<rparr>)" rule: stamp_status.cases)
     (simp_all add: build_updateData_def)

lemma ts_rejected_build [simp]:
  "ts_rejected (build_updateData updates now) =
     (if upd_status updates = Some Rejected then Some now else None)"
  by (cases "(upd_status updates, now, \<lparr>spread = updates, ts_updated = Some now,
        ts_approved = None, ts_rejected = None, ts_completed = None\<rparr>)" rule: stamp_status.cases)
     (simp_all add: build_updateData_def)

lemma ts_completed_build [simp]:
  "ts_completed (build_updateData updates now) =
     (if upd_status updates = Some Completed then Some now else None)"
  by (cases "(upd_status updates, now, \<lparr>spread = updates, ts_updated = Some now,
        ts_approved = None, ts_rejected = None, ts_completed = None\<rparr>)" rule: stamp_status.cases)
     (simp_all add: build_updateData_def)

section \<open>The status workflow\<close>

text \<open>
  C7.  An update applied by \<open>updateOrder\<close> is a partial merge.  When the store accepts
  the write to an existing order, the stored order afterwards has
  \<open>timestamps.updated\<close> equal to the time of the call; the timestamp of the target status
  (\<open>approved\<close>, \<open>rejected\<close>, \<open>completed\<close>) equal to the time of the call and the two other
  optional timestamps as before; \<open>timestamps.created\<close> and \<open>orderId\<close> as before; every
  field that is a key of \<open>updates\<close> with the value given there and every other field as
  before.  The counters and all other orders are unchanged.
\<close>

theorem updateOrder_partial_merge:
  assumes "env_updateDoc env = Succeeds" and "orders w ident = Some d"
  shows "\<exists>d'. orders (snd (updateOrder env w ident updates)) ident = Some d'
    \<and> updated (timestamps d') = env_now env
    \<and> approved (timestamps d') =
        (if upd_status updates = Some Approved then Some (env_now env) else approved (timestamps d))
    \<and> rejected (timestamps d') =
        (if upd_status updates = Some Rejected then Some (env_now env) else rejected (timestamps d))
    \<and> completed (timestamps d') =
        (if upd_status updates = Some Completed then Some (env_now env) else completed (timestamps d))
    \<and> created (timestamps d') = created (timestamps d)
    \<and> orderId d' = orderId d
    \<and> exchangeId d' = (case upd_exchangeId updates of None \<Rightarrow> exchangeId d | Some v \<Rightarrow> v)
    \<and> type d' = (case upd_type updates of None \<Rightarrow> type d | Some v \<Rightarrow> v)
    \<and> status d' = (case upd_status updates of None \<Rightarrow> status d | Some v \<Rightarrow> v)
    \<and> submittedAmount d' = (case upd_submittedAmount updates of None \<Rightarrow> submittedAmount d | Some v \<Rightarrow> v)
    \<and> finalAmount d' = (case upd_finalAmount updates of None \<Rightarrow> finalAmount d | Some v \<Rightarrow> Some v)
    \<and> commission d' = (case upd_commission updates of None \<Rightarrow> commission d | Some v \<Rightarrow> v)
    \<and> cliqDetails d' = (case upd_cliqDetails updates of None \<Rightarrow> cliqDetails d | Some v \<Rightarrow> Some v)
    \<and> recipientDetails d' = (case upd_recipientDetails updates of None \<Rightarrow> recipientDetails d | Some v \<Rightarrow> Some v)
    \<and> bankUsed d' = (case upd_bankUsed updates of None \<Rightarrow> bankUsed d | Some v \<Rightarrow> Some v)
    \<and> platformBankUsed d' = (case upd_platformBankUsed updates of None \<Rightarrow> platformBankUsed d | Some v \<Rightarrow> Some v)
    \<and> screenshots d' = (case upd_screenshots updates of None \<Rightarrow> screenshots d | Some v \<Rightarrow> v)
    \<and> adminNotes d' = (case upd_adminNotes updates of None \<Rightarrow> adminNotes d | Some v \<Rightarrow> Some v)
    \<and> rejectionReason d' = (case upd_rejectionReason updates of None \<Rightarrow> rejectionReason d | Some v \<Rightarrow> Some v)
    \<and> senderName d' = (case upd_senderName updates of None \<Rightarrow> senderName d | Some v \<Rightarrow> Some v)
    \<and> counters (snd (updateOrder env w ident updates)) = counters w
    \<and> (\<forall>k. k \<noteq> ident \<longrightarrow> orders (snd (updateOrder env w ident updates)) k = orders w k)"
proof -
  let ?d' = "merge_update (build_updateData updates (env_now env)) d"
  have stored: "orders (snd (updateOrder env w ident updates)) ident = Some ?d'"
    using assms by (simp add: updateOrder_stored)
  have stamps: "updated (timestamps ?d') = env_now env"
    "approved (timestamps ?d') =
        (if upd_status updates = Some Approved then Some (env_now env) else approved (timestamps d))"
    "rejected (timestamps ?d') =
        (if upd_status updates = Some Rejected then Some (env_now env) else rejected (timestamps d))"
    "completed (timestamps ?d') =
        (if upd_status updates = Some Completed then Some (env_now env) else completed (timestamps d))"
    "created (timestamps ?d') = created (timestamps d)"
    "orderId ?d' = orderId d"
    by (simp_all add: merge_update_def set_field_def set_optional_def)
  have flds: "exchangeId ?d' = (case upd_exchangeId updates of None \<Rightarrow> exchangeId d | Some v \<Rightarrow> v)"
    "type ?d' = (case upd_type updates of None \<Rightarrow> type d | Some v \<Rightarrow> v)"
    "status ?d' = (case upd_status updates of None \<Rightarrow> status d | Some v \<Rightarrow> v)"
    "submittedAmount ?d' = (case upd_submittedAmount updates of None \<Rightarrow> submittedAmount d | Some v \<Rightarrow> v)"
    "finalAmount ?d' = (case upd_finalAmount updates of None \<Rightarrow> finalAmount d | Some v \<Rightarrow> Some v)"
    "commission ?d' = (case upd_commission updates of None \<Rightarrow> commission d | Some v \<Rightarrow> v)"
    "cliqDetails ?d' = (case upd_cliqDetails updates of None \<Rightarrow> cliqDetails d | Some v \<Rightarrow> Some v)"
    "recipientDetails ?d' = (case upd_recipientDetails updates of None \<Rightarrow> recipientDetails d | Some v \<Rightarrow> Some v)"
    "bankUsed ?d' = (case upd_bankUsed updates of None \<Rightarrow> bankUsed d | Some v \<Rightarrow> Some v)"
    "platformBankUsed ?d' = (case upd_platformBankUsed updates of None \<Rightarrow> platformBankUsed d | Some v \<Rightarrow> Some v)"
    "screenshots ?d' = (case upd_screenshots updates of None \<Rightarrow> screenshots d | Some v \<Rightarrow> v)"
    "adminNotes ?d' = (case upd_adminNotes updates of None \<Rightarrow> adminNotes d | Some v \<Rightarrow> Some v)"
    "rejectionReason ?d' = (case upd_rejectionReason updates of None \<Rightarrow> rejectionReason d | Some v \<Rightarrow> Some v)"
    "senderName ?d' = (case upd_senderName updates of None \<Rightarrow> senderName d | Some v \<Rightarrow> Some v)"
    by (simp_all add: merge_update_def set_field_def set_optional_def)
  show ?thesis
    using stored stamps flds updateOrder_frame [of env w ident updates] by blast
qed

theorem updateOrder_partial_merge_witness:
  "env_updateDoc (store_ok 3000) = Succeeds
   \<and> orders approved_world ''doc1'' = Some approved_doc
   \<and> (\<exists>d'. orders (snd (updateOrder (store_ok 3000) approved_world ''doc1''
                 (no_updates\<lparr>upd_status := Some Completed\<rparr>))) ''doc1'' = Some d'
        \<and> status d' = Completed
        \<and> completed (timestamps d') = Some 3000
        \<and> updated (timestamps d') = 3000
        \<and> approved (timestamps d') = Some 2000
        \<and> created (timestamps d') = 1000
        \<and> orderId d' = ''T25060001''
        \<and> submittedAmount d' = 1000
        \<and> adminNotes d' = None)"
proof -
  have h1: "env_updateDoc (store_ok 3000) = Succeeds"
    by (simp add: store_ok_def)
  have h2: "orders approved_world ''doc1'' = Some approved_doc"
    by (simp add: approved_world_def)
  from updateOrder_partial_merge [OF h1 h2, of "no_updates\<lparr>upd_status := Some Completed\<rparr>"]
  obtain d' where d': "orders (snd (updateOrder (store_ok 3000) approved_world ''doc1''
                 (no_updates\<lparr>upd_status := Some Completed\<rparr>))) ''doc1'' = Some d'"
     "status d' = Completed"
     "completed (timestamps d') = Some 3000"
     "updated (timestamps d') = 3000"
     "approved (timestamps d') = Some 2000"
     "created (timestamps d') = 1000"
     "orderId d' = ''T25060001''"
     "submittedAmount d' = 1000"
     "adminNotes d' = None"
    by (auto simp add: no_updates_def store_ok_def approved_doc_def example_doc_def
          example_data_def orderWithMetadata_def)
  with h1 h2 show ?thesis by blast
qed

text \<open>
  C10.  A note equal to the empty string is dropped by \<open>updateOrderStatus\<close>: for every
  target status, \<open>rejected\<close> included, the call is the call of \<open>updateOrder\<close> with the
  status as the only key, so neither \<open>rejectionReason\<close> nor \<open>adminNotes\<close> is a key of the
  update, and the two fields of the stored order are what they were before, whatever the
  store answers.
\<close>

theorem updateOrderStatus_empty_note:
  "updateOrderStatus env w ident target (Some '''') =
     updateOrder env w ident (no_updates\<lparr>upd_status := Some target\<rparr>)
   \<and> upd_rejectionReason (no_updates\<lparr>upd_status := Some target\<rparr>) = None
   \<and> upd_adminNotes (no_updates\<lparr>upd_status := Some target\<rparr>) = None
   \<and> map_option rejectionReason (orders (snd (updateOrderStatus env w ident target (Some ''''))) ident)
       = map_option rejectionReason (orders w ident)
   \<and> map_option adminNotes (orders (snd (updateOrderStatus env w ident target (Some ''''))) ident)
       = map_option adminNotes (orders w ident)"
proof -
  let ?u = "no_updates\<lparr>upd_status := Some target\<rparr>"
  have eq: "updateOrderStatus env w ident target (Some '''') = updateOrder env w ident ?u"
    by (simp add: updateOrderStatus_def)
  have keys: "upd_rejectionReason ?u = None" "upd_adminNotes ?u = None"
    by (simp_all add: no_updates_def)
  have kept: "map_option rejectionReason (orders (snd (updateOrder env w ident ?u)) ident)
                = map_option rejectionReason (orders w ident)"
       "map_option adminNotes (orders (snd (updateOrder env w ident ?u)) ident)
                = map_option adminNotes (orders w ident)"
  proof -
    show "map_option rejectionReason (orders (snd (updateOrder env w ident ?u)) ident)
                = map_option rejectionReason (orders w ident)"
    proof (cases "env_updateDoc env")
      case Succeeds
      then show ?thesis
        by (cases "orders w ident")
           (simp_all add: updateOrder_missing updateOrder_stored merge_update_def
              set_optional_def keys)
    next
      case (Throws e)
      then show ?thesis by (simp add: updateOrder_throws)
    qed
    show "map_option adminNotes (orders (snd (updateOrder env w ident ?u)) ident)
                = map_option adminNotes (orders w ident)"
    proof (cases "env_updateDoc env")
      case Succeeds
      then show ?thesis
        by (cases "orders w ident")
           (simp_all add: updateOrder_missing updateOrder_stored merge_update_def
              set_optional_def keys)
    next
      case (Throws e)
      then show ?thesis by (simp add: updateOrder_throws)
    qed
  qed
  show ?thesis using eq keys kept by simp
qed

text \<open>
  C8, as stated, fails for the empty note: \<open>updateOrderStatus\<close> called with the target
  \<open>rejected\<close> and the empty string as note is accepted by the store, the order becomes
  \<open>rejected\<close>, and no \<open>rejectionReason\<close> is stored.
\<close>

theorem updateOrderStatus_empty_rejection_note_counterexample:
  "map_option rejectionReason
     (orders (snd (updateOrderStatus (store_ok 3000) example_world ''doc1'' Rejected (Some '''')))
        ''doc1'') = Some None
   \<and> map_option status
     (orders (snd (updateOrderStatus (store_ok 3000) example_world ''doc1'' Rejected (Some '''')))
        ''doc1'') = Some Rejected"
  by (simp add: updateOrderStatus_def updateOrder_stored store_ok_def example_world_def
        merge_update_def set_optional_def set_field_def no_updates_def example_doc_def
        orderWithMetadata_def example_data_def)

text \<open>
  C8, amended.  When \<open>updateOrderStatus\<close> is called with a non-empty note and the store
  accepts the write to an existing order: for the target \<open>rejected\<close> the note is stored
  in \<open>rejectionReason\<close> and \<open>adminNotes\<close> is unchanged; for any other target the note
  is stored in \<open>adminNotes\<close> and \<open>rejectionReason\<close> is unchanged.
\<close>

theorem updateOrderStatus_note:
  assumes "note \<noteq> ''''" and "env_updateDoc env = Succeeds" and "orders w ident = Some d"
  shows "\<exists>d'. orders (snd (updateOrderStatus env w ident target (Some note))) ident = Some d'
    \<and> status d' = target
    \<and> (if target = Rejected
        then rejectionReason d' = Some note \<and> adminNotes d' = adminNotes d
        else adminNotes d' = Some note \<and> rejectionReason d' = rejectionReason d)"
proof (cases "target = Rejected")
  case True
  have "updateOrderStatus env w ident target (Some note) =
          updateOrder env w ident
            (no_updates\<lparr>upd_status := Some target, upd_rejectionReason := Some note\<rparr>)"
    using assms(1) True by (simp add: updateOrderStatus_def)
  then show ?thesis
    using assms(2,3) True
    by (simp add: updateOrder_stored merge_update_def set_optional_def set_field_def
          no_updates_def)
next
  case False
  have "updateOrderStatus env w ident target (Some note) =
          updateOrder env w ident
            (no_updates\<lparr>upd_status := Some target, upd_adminNotes := Some note\<rparr>)"
    using assms(1) False by (simp add: updateOrderStatus_def)
  then show ?thesis
    using assms(2,3) False
    by (simp add: updateOrder_stored merge_update_def set_optional_def set_field_def
          no_updates_def)
qed

theorem updateOrderStatus_note_witness:
  "''Missing receipt'' \<noteq> ''''
   \<and> env_updateDoc (store_ok 3000) = Succeeds
   \<and> orders example_world ''doc1'' = Some example_doc
   \<and> (\<exists>d'. orders (snd (updateOrderStatus (store_ok 3000) example_world ''doc1'' Rejected
                 (Some ''Missing receipt''))) ''doc1'' = Some d'
        \<and> status d' = Rejected
        \<and> rejectionReason d' = Some ''Missing receipt''
        \<and> adminNotes d' = None)"
proof -
  have h1: "''Missing receipt'' \<noteq> ''''" by simp
  have h2: "env_updateDoc (store_ok 3000) = Succeeds" by (simp add: store_ok_def)
  have h3: "orders example_world ''doc1'' = Some example_doc" by (simp add: example_world_def)
  have "adminNotes example_doc = None"
    by (simp add: example_doc_def orderWithMetadata_def example_data_def)
  with updateOrderStatus_note [OF h1 h2 h3, of Rejected] h1 h2 h3 show ?thesis by simp
qed

text \<open>
  C9.  \<open>updateOrderStatus\<close> checks no adjacency: whatever the current status of an
  existing order and whatever the target status, when the store completes the write and
  the read-back the call succeeds, reports no error, and the order returned and the order
  stored have the target status.
\<close>

theorem updateOrderStatus_any_transition:
  assumes "env_updateDoc env = Succeeds" and "env_getDoc env = Succeeds"
    and "orders w ident = Some d" and "status d = current"
  shows "success (fst (updateOrderStatus env w ident target note))
    \<and> error (fst (updateOrderStatus env w ident target note)) = None
    \<and> map_option status (data (fst (updateOrderStatus env w ident target note))) = Some target
    \<and> map_option status (orders (snd (updateOrderStatus env w ident target note)) ident)
        = Some target"
proof -
  obtain u where u: "updateOrderStatus env w ident target note = updateOrder env w ident u"
    and st: "upd_status u = Some target"
    by (cases "truthy note"; cases "target = Rejected")
       (simp_all add: updateOrderStatus_def no_updates_def)
  have "status (merge_update (build_updateData u (env_now env)) d) = target"
    by (simp add: merge_update_def set_field_def st)
  then show ?thesis
    using assms(1-3) by (simp add: u updateOrder_stored updateOrder_returned to_Order_def)
qed

theorem updateOrderStatus_any_transition_witness:
  "env_updateDoc (store_ok 3000) = Succeeds \<and> env_getDoc (store_ok 3000) = Succeeds
   \<and> orders example_world ''doc1'' = Some example_doc \<and> status example_doc = Submitted
   \<and> success (fst (updateOrderStatus (store_ok 3000) example_world ''doc1'' Completed None))
   \<and> map_option status
        (orders (snd (updateOrderStatus (store_ok 3000) example_world ''doc1'' Completed None))
           ''doc1'') = Some Completed"
proof -
  have h1: "env_updateDoc (store_ok 3000) = Succeeds" by (simp add: store_ok_def)
  have h2: "env_getDoc (store_ok 3000) = Succeeds" by (simp add: store_ok_def)
  have h3: "orders example_world ''doc1'' = Some example_doc" by (simp add: example_world_def)
  have h4: "status example_doc = Submitted"
    by (simp add: example_doc_def orderWithMetadata_def example_data_def)
  from updateOrderStatus_any_transition [OF h1 h2 h3 h4, of Completed None] h1 h2 h3 h4
  show ?thesis by simp
qed

section \<open>Facts about \<open>createOrder\<close>\<close>

lemma generateOrderId_throws:
  "generateOrderId tz clock (Throws e) cs = (Inl e, cs)"
  by (simp add: generateOrderId_def runTransaction_def Let_def)

lemma generateOrderId_succeeds:
  "\<exists>oid cs'. generateOrderId tz clock Succeeds cs = (Inr oid, cs')"
  by (simp add: generateOrderId_def runTransaction_def Let_def split: option.splits)

lemma createOrder_allocation_failed:
  "env_txn env = Throws e \<Longrightarrow>
   createOrder env w orderData = (failure e ''Failed to create order'', w)"
  by (simp add: createOrder_def generateOrderId_throws)

lemma createOrder_addDoc_failed:
  "env_txn env = Succeeds \<Longrightarrow> env_addDoc env = Throws e \<Longrightarrow>
   fst (createOrder env w orderData) = failure e ''Failed to create order'' \<and>
   orders (snd (createOrder env w orderData)) = orders w"
  using generateOrderId_succeeds [of "env_tz env" "env_clock env" "counters w"]
  by (auto simp add: createOrder_def Let_def)

lemma createOrder_persisted:
  "env_txn env = Succeeds \<Longrightarrow> env_addDoc env = Succeeds \<Longrightarrow>
   \<exists>oid. fst (generateOrderId (env_tz env) (env_clock env) (env_txn env) (counters w)) = Inr oid
     \<and> orders (snd (createOrder env w orderData)) =
         (orders w)(env_docId env \<mapsto> orderWithMetadata orderData oid (env_stamp env))
     \<and> fst (createOrder env w orderData) =
         \<lparr>success = True,
          data = Some (to_Order (env_docId env) (orderWithMetadata orderData oid (env_stamp env))),
          error = None, message = Some ''Order created successfully''\<rparr>"
  using generateOrderId_succeeds [of "env_tz env" "env_clock env" "counters w"]
  by (auto simp add: createOrder_def Let_def)

text \<open>
  C6.  When the counter transaction throws, \<open>createOrder\<close> leaves the store as it was
  (no order, no counter written) and returns a failure carrying the error.  Whatever the
  store answers, the orders after the call are the orders before it, or the orders before
  it with one new record whose \<open>orderId\<close> is the identifier that the allocation returned,
  and then the call reports success.
\<close>

theorem createOrder_no_order_without_id:
  "(env_txn env = Throws e \<longrightarrow>
      createOrder env w orderData = (failure e ''Failed to create order'', w)
      \<and> \<not> success (fst (createOrder env w orderData)))
   \<and> (orders (snd (createOrder env w orderData)) = orders w
      \<or> (\<exists>oid. fst (generateOrderId (env_tz env) (env_clock env) (env_txn env) (counters w)) = Inr oid
            \<and> orders (snd (createOrder env w orderData)) =
                (orders w)(env_docId env \<mapsto> orderWithMetadata orderData oid (env_stamp env))
            \<and> orderId (orderWithMetadata orderData oid (env_stamp env)) = oid
            \<and> success (fst (createOrder env w orderData))))"
proof -
  have fails: "env_txn env = Throws e \<longrightarrow>
      createOrder env w orderData = (failure e ''Failed to create order'', w)
      \<and> \<not> success (fst (createOrder env w orderData))"
    by (simp add: createOrder_allocation_failed failure_def)
  have all_or_nothing: "orders (snd (createOrder env w orderData)) = orders w
      \<or> (\<exists>oid. fst (generateOrderId (env_tz env) (env_clock env) (env_txn env) (counters w)) = Inr oid
            \<and> orders (snd (createOrder env w orderData)) =
                (orders w)(env_docId env \<mapsto> orderWithMetadata orderData oid (env_stamp env))
            \<and> orderId (orderWithMetadata orderData oid (env_stamp env)) = oid
            \<and> success (fst (createOrder env w orderData)))"
  proof (cases "env_txn env")
    case (Throws e')
    then show ?thesis by (simp add: createOrder_allocation_failed)
  next
    case Succeeds
    show ?thesis
    proof (cases "env_addDoc env")
      case (Throws e')
      with Succeeds show ?thesis by (simp add: createOrder_addDoc_failed)
    next
      case addOk: Succeeds
      from createOrder_persisted [OF Succeeds addOk, of w orderData]
      obtain oid where
        "fst (generateOrderId (env_tz env) (env_clock env) (env_txn env) (counters w)) = Inr oid"
        "orders (snd (createOrder env w orderData)) =
           (orders w)(env_docId env \<mapsto> orderWithMetadata orderData oid (env_stamp env))"
        "success (fst (createOrder env w orderData))"
        by auto
      moreover have "orderId (orderWithMetadata orderData oid (env_stamp env)) = oid"
        by (simp add: orderWithMetadata_def)
      ultimately show ?thesis by blast
    qed
  qed
  from fails all_or_nothing show ?thesis by blast
qed

theorem createOrder_no_order_without_id_witness:
  "env_txn create_contended = Throws ''contention''
   \<and> createOrder create_contended example_world example_data
       = (failure ''contention'' ''Failed to create order'', example_world)
   \<and> \<not> success (fst (createOrder create_contended example_world example_data))
   \<and> orders (snd (createOrder create_contended example_world example_data)) ''doc2'' = None"
proof -
  have h: "env_txn create_contended = Throws ''contention''"
    by (simp add: create_contended_def)
  have "orders example_world ''doc2'' = None" by (simp add: example_world_def)
  with h createOrder_no_order_without_id [of create_contended "''contention''" example_world example_data]
  show ?thesis by (simp add: failure_def)
qed

text \<open>
  C5, as stated, fails: an order approved at time 2000 and approved again at time 3000
  has \<open>timestamps.approved = 3000\<close> afterwards; the stored value is overwritten.
\<close>

theorem second_approval_overwrites_counterexample:
  "map_option (\<lambda>d. approved (timestamps d)) (orders approved_world ''doc1'') = Some (Some 2000)
   \<and> map_option (\<lambda>d. approved (timestamps d))
       (orders (snd (updateOrderStatus (store_ok 3000) approved_world ''doc1'' Approved None))
          ''doc1'') = Some (Some 3000)"
  by (simp add: updateOrderStatus_def updateOrder_stored store_ok_def approved_world_def
        merge_update_def set_optional_def set_field_def no_updates_def approved_doc_def
        example_doc_def orderWithMetadata_def example_data_def)

text \<open>
  C5, amended.  The optional timestamps are written on every transition to their status,
  not only the first: when the store accepts an update whose status is \<open>approved\<close>,
  \<open>rejected\<close> or \<open>completed\<close>, the timestamp of that status is the time of this call,
  whatever was stored before, and the two other optional timestamps are unchanged; an
  update to any other status leaves all three unchanged.
\<close>

theorem status_timestamp_written_on_every_transition:
  assumes "env_updateDoc env = Succeeds" and "orders w ident = Some d"
    and "upd_status updates = Some target"
  shows "\<exists>d'. orders (snd (updateOrder env w ident updates)) ident = Some d'
    \<and> approved (timestamps d') =
        (if target = Approved then Some (env_now env) else approved (timestamps d))
    \<and> rejected (timestamps d') =
        (if target = Rejected then Some (env_now env) else rejected (timestamps d))
    \<and> completed (timestamps d') =
        (if target = Completed then Some (env_now env) else completed (timestamps d))"
  using assms
  by (simp add: updateOrder_stored merge_update_def set_optional_def)

theorem status_timestamp_written_on_every_transition_witness:
  "env_updateDoc (store_ok 3000) = Succeeds
   \<and> orders approved_world ''doc1'' = Some approved_doc
   \<and> upd_status (no_updates\<lparr>upd_status := Some Approved\<rparr>) = Some Approved
   \<and> approved (timestamps approved_doc) = Some 2000
   \<and> (\<exists>d'. orders (snd (updateOrder (store_ok 3000) approved_world ''doc1''
                 (no_updates\<lparr>upd_status := Some Approved\<rparr>))) ''doc1'' = Some d'
        \<and> approved (timestamps d') = Some 3000
        \<and> rejected (timestamps d') = None
        \<and> completed (timestamps d') = None)"
proof -
  have h1: "env_updateDoc (store_ok 3000) = Succeeds" by (simp add: store_ok_def)
  have h2: "orders approved_world ''doc1'' = Some approved_doc"
    by (simp add: approved_world_def)
  have h3: "upd_status (no_updates\<lparr>upd_status := Some Approved\<rparr>) = Some Approved" by simp
  have old: "approved (timestamps approved_doc) = Some 2000"
    "rejected (timestamps approved_doc) = None" "completed (timestamps approved_doc) = None"
    by (simp_all add: approved_doc_def example_doc_def orderWithMetadata_def)
  have now: "env_now (store_ok 3000) = 3000" by (simp add: store_ok_def)
  from status_timestamp_written_on_every_transition [OF h1 h2 h3] h1 h2 old now
  show ?thesis by simp
qed

text \<open>
  C4, as stated, fails in both parts: \<open>createOrder\<close> called with the status \<open>approved\<close>
  persists an order whose status is \<open>approved\<close>, and \<open>updateOrderStatus\<close> with the target
  \<open>submitted\<close> turns an \<open>approved\<close> order into a \<open>submitted\<close> one.
\<close>

theorem createOrder_status_not_forced_counterexample:
  "map_option status
     (orders (snd (createOrder create_ok example_world (example_data\<lparr>status := Approved\<rparr>)))
        ''doc2'') = Some Approved
   \<and> map_option status (orders approved_world ''doc1'') = Some Approved
   \<and> map_option status
     (orders (snd (updateOrderStatus (store_ok 3000) approved_world ''doc1'' Submitted None))
        ''doc1'') = Some Submitted"
proof -
  have txn: "env_txn create_ok = Succeeds" and add: "env_addDoc create_ok = Succeeds"
    and ident: "env_docId create_ok = ''doc2''"
    by (simp_all add: create_ok_def)
  from createOrder_persisted [OF txn add, of example_world "example_data\<lparr>status := Approved\<rparr>"]
  have created: "map_option status
     (orders (snd (createOrder create_ok example_world (example_data\<lparr>status := Approved\<rparr>)))
        ''doc2'') = Some Approved"
    by (auto simp add: ident orderWithMetadata_def)
  have before: "map_option status (orders approved_world ''doc1'') = Some Approved"
    by (simp add: approved_world_def approved_doc_def)
  have after: "map_option status
     (orders (snd (updateOrderStatus (store_ok 3000) approved_world ''doc1'' Submitted None))
        ''doc1'') = Some Submitted"
    by (simp add: updateOrderStatus_def updateOrder_stored store_ok_def approved_world_def
        merge_update_def set_field_def no_updates_def)
  from created before after show ?thesis by simp
qed

text \<open>
  C4, amended.  The status of an order persisted by \<open>createOrder\<close> is the status its
  caller supplies in \<open>orderData\<close> (so it is \<open>submitted\<close> when the caller supplies
  \<open>submitted\<close>), in the stored record and in the order returned; and a transition of
  that order to any target status, \<open>submitted\<close> included, produces the target status.
\<close>

theorem createOrder_status_as_supplied:
  assumes "env_txn env = Succeeds" and "env_addDoc env = Succeeds"
    and "env_updateDoc uenv = Succeeds"
  shows "map_option status (orders (snd (createOrder env w orderData)) (env_docId env))
           = Some (status orderData)
    \<and> map_option status (data (fst (createOrder env w orderData))) = Some (status orderData)
    \<and> map_option status
        (orders (snd (updateOrderStatus uenv (snd (createOrder env w orderData)) (env_docId env)
                        target note)) (env_docId env)) = Some target"
proof -
  from createOrder_persisted [OF assms(1,2), of w orderData]
  obtain oid where
    stored: "orders (snd (createOrder env w orderData)) =
         (orders w)(env_docId env \<mapsto> orderWithMetadata orderData oid (env_stamp env))"
    and resp: "fst (createOrder env w orderData) =
         \<lparr>success = True,
          data = Some (to_Order (env_docId env) (orderWithMetadata orderData oid (env_stamp env))),
          error = None, message = Some ''Order created successfully''\<rparr>"
    by blast
  have s1: "map_option status (orders (snd (createOrder env w orderData)) (env_docId env))
           = Some (status orderData)"
    by (simp add: stored orderWithMetadata_def)
  have s2: "map_option status (data (fst (createOrder env w orderData))) = Some (status orderData)"
    by (simp add: resp to_Order_def orderWithMetadata_def)
  let ?w1 = "snd (createOrder env w orderData)"
  let ?d = "orderWithMetadata orderData oid (env_stamp env)"
  have there: "orders ?w1 (env_docId env) = Some ?d"
    by (simp add: stored)
  obtain u where u: "updateOrderStatus uenv ?w1 (env_docId env) target note
                       = updateOrder uenv ?w1 (env_docId env) u"
    and st: "upd_status u = Some target"
    by (cases "truthy note"; cases "target = Rejected")
       (simp_all add: updateOrderStatus_def no_updates_def)
  have s3: "map_option status
        (orders (snd (updateOrderStatus uenv ?w1 (env_docId env) target note)) (env_docId env))
          = Some target"
    by (simp add: u updateOrder_stored [OF assms(3) there] merge_update_def set_field_def st)
  from s1 s2 s3 show ?thesis by simp
qed

theorem createOrder_status_as_supplied_witness:
  "env_txn create_ok = Succeeds \<and> env_addDoc create_ok = Succeeds
   \<and> env_updateDoc (store_ok 3000) = Succeeds
   \<and> map_option status (orders (snd (createOrder create_ok example_world example_data)) ''doc2'')
        = Some Submitted
   \<and> map_option status
        (orders (snd (updateOrderStatus (store_ok 3000)
                        (snd (createOrder create_ok example_world example_data)) ''doc2''
                        Pending_review None)) ''doc2'') = Some Pending_review"
proof -
  have h1: "env_txn create_ok = Succeeds" and h2: "env_addDoc create_ok = Succeeds"
    and ident: "env_docId create_ok = ''doc2''"
    by (simp_all add: create_ok_def)
  have h3: "env_updateDoc (store_ok 3000) = Succeeds" by (simp add: store_ok_def)
  have st: "status example_data = Submitted" by (simp add: example_data_def)
  from createOrder_status_as_supplied [OF h1 h2 h3, of example_world example_data
      Pending_review None] h1 h2 h3
  show ?thesis by (simp add: ident st)
qed

section \<open>Facts about the decimal rendering and about \<open>generateOrderId\<close>\<close>

lemma digit_val_digit_char: "d < 10 \<Longrightarrow> digit_val (digit_char d) = d"
  by (simp add: digit_val_def digit_char_def)

lemma is_digit_digit_char: "d < 10 \<Longrightarrow> is_digit (digit_char d)"
  by (simp add: is_digit_def digit_char_def)

lemma parse_nat_snoc: "parse_nat (s @ [c]) = 10 * parse_nat s + digit_val c"
  by (simp add: parse_nat_def)

lemma parse_nat_toString: "parse_nat (nat_toString n) = n"
proof (induction n rule: nat_toString.induct)
  case (1 n)
  show ?case
  proof (cases "n < 10")
    case True
    then show ?thesis
      by (simp add: nat_toString.simps [of n] parse_nat_def digit_val_digit_char)
  next
    case False
    with 1 have "parse_nat (nat_toString (n div 10)) = n div 10" by simp
    with False show ?thesis
      by (simp add: nat_toString.simps [of n] parse_nat_snoc digit_val_digit_char)
  qed
qed

lemma digits_nat_toString: "\<forall>c \<in> set (nat_toString n). is_digit c"
proof (induction n rule: nat_toString.induct)
  case (1 n)
  show ?case
  proof (cases "n < 10")
    case True
    then show ?thesis by (simp add: nat_toString.simps [of n] is_digit_digit_char)
  next
    case False
    with 1 have "\<forall>c \<in> set (nat_toString (n div 10)). is_digit c" by simp
    with False show ?thesis
      by (simp add: nat_toString.simps [of n] is_digit_digit_char)
  qed
qed

lemma parse_nat_zeros: "parse_nat (replicate k CHR ''0'' @ s) = parse_nat s"
proof -
  have "foldl (\<lambda>a c. 10 * a + digit_val c) 0 (replicate k CHR ''0'') = 0"
    by (induction k) (simp_all add: digit_val_def)
  then show ?thesis by (simp add: parse_nat_def)
qed

lemma parse_nat_padStart: "parse_nat (padStart k CHR ''0'' (nat_toString n)) = n"
  by (simp add: padStart_def parse_nat_zeros parse_nat_toString)

lemma length_nat_toString_small: "n < 10 \<Longrightarrow> length (nat_toString n) = 1"
  by (simp add: nat_toString.simps [of n])

lemma length_nat_toString_step:
  "10 \<le> n \<Longrightarrow> length (nat_toString n) = Suc (length (nat_toString (n div 10)))"
  by (simp add: nat_toString.simps [of n])

lemma length_nat_toString_le4: "n < 10000 \<Longrightarrow> length (nat_toString n) \<le> 4"
proof -
  assume n: "n < 10000"
  have l1: "\<And>m. m < 10 \<Longrightarrow> length (nat_toString m) \<le> 1"
    by (simp add: length_nat_toString_small)
  have l2: "\<And>m. m < 100 \<Longrightarrow> length (nat_toString m) \<le> 2"
  proof -
    fix m :: nat assume "m < 100"
    then show "length (nat_toString m) \<le> 2"
      using l1 [of "m div 10"] by (cases "m < 10") (simp_all add: length_nat_toString_small length_nat_toString_step)
  qed
  have l3: "\<And>m. m < 1000 \<Longrightarrow> length (nat_toString m) \<le> 3"
  proof -
    fix m :: nat assume "m < 1000"
    then show "length (nat_toString m) \<le> 3"
      using l2 [of "m div 10"] by (cases "m < 10") (simp_all add: length_nat_toString_small length_nat_toString_step)
  qed
  show ?thesis
    using n l3 [of "n div 10"] by (cases "n < 10") (simp_all add: length_nat_toString_small length_nat_toString_step)
qed

lemma length_padStart: "length s \<le> k \<Longrightarrow> length (padStart k c s) = k"
  by (simp add: padStart_def)

lemma digits_padStart:
  "\<forall>c \<in> set (padStart k CHR ''0'' (nat_toString n)). is_digit c"
  using digits_nat_toString [of n] by (auto simp add: padStart_def is_digit_def)

lemma toString_nonneg: "0 \<le> i \<Longrightarrow> toString i = nat_toString (nat i)"
  by (simp add: toString_def)

lemma generateOrderId_commit:
  "generateOrderId tz clock Succeeds cs =
     (Inr (''T'' @ year_digits tz clock @ month_digits tz clock
             @ padStart 4 CHR ''0''
                 (toString (current_count cs (COUNTERS_key (monthKey tz clock)) + 1))),
      cs(COUNTERS_key (monthKey tz clock) \<mapsto>
           (case cs (COUNTERS_key (monthKey tz clock)) of
              None \<Rightarrow> \<lparr>count = 1, month = monthKey tz clock\<rparr>
            | Some d \<Rightarrow> d\<lparr>count := count d + 1\<rparr>)))"
  by (simp add: generateOrderId_def runTransaction_def Let_def year_digits_def
        month_digits_def monthKey_def current_count_def split: option.splits)

lemma current_count_commit:
  "current_count (snd (generateOrderId tz clock Succeeds cs)) (COUNTERS_key (monthKey tz clock))
     = current_count cs (COUNTERS_key (monthKey tz clock)) + 1"
  by (simp add: generateOrderId_commit current_count_def split: option.splits)

lemma COUNTERS_key_inj: "COUNTERS_key a = COUNTERS_key b \<longleftrightarrow> a = b"
  by (simp add: COUNTERS_key_def)

lemma generateOrderId_other_key:
  "key \<noteq> COUNTERS_key (monthKey tz clock) \<Longrightarrow>
   snd (generateOrderId tz clock txn cs) key = cs key"
  by (cases txn) (simp_all add: generateOrderId_commit generateOrderId_throws)

lemma allocations_Cons_fst:
  "fst (allocations tz ((clock, txn) # calls) cs) =
     fst (generateOrderId tz clock txn cs)
       # fst (allocations tz calls (snd (generateOrderId tz clock txn cs)))"
  by (simp add: split_beta)

lemma allocations_Cons_snd:
  "snd (allocations tz ((clock, txn) # calls) cs) =
     snd (allocations tz calls (snd (generateOrderId tz clock txn cs)))"
  by (simp add: split_beta)

lemma allocations_same_month:
  assumes "\<forall>c \<in> set calls. monthKey tz (fst c) = k"
  shows "ids_of (fst (allocations tz calls cs)) =
           map (\<lambda>i. ''T'' @ k @ padStart 4 CHR ''0''
                       (toString (current_count cs (COUNTERS_key k) + 1 + int i)))
             [0..<length (filter (\<lambda>c. snd c = Succeeds) calls)]
       \<and> current_count (snd (allocations tz calls cs)) (COUNTERS_key k) =
           current_count cs (COUNTERS_key k)
             + int (length (filter (\<lambda>c. snd c = Succeeds) calls))"
  using assms
proof (induction calls arbitrary: cs)
  case Nil
  then show ?case by simp
next
  case (Cons c calls)
  obtain clock txn where c: "c = (clock, txn)" by (cases c)
  from Cons.prems c have k: "monthKey tz clock = k" by simp
  from Cons.prems have rest: "\<forall>c \<in> set calls. monthKey tz (fst c) = k" by simp
  show ?case
  proof (cases txn)
    case (Throws e)
    with Cons.IH [OF rest, of cs] show ?thesis
      by (simp add: c allocations_Cons_fst allocations_Cons_snd generateOrderId_throws
            del: allocations.simps)
  next
    case Succeeds
    let ?cs1 = "snd (generateOrderId tz clock Succeeds cs)"
    let ?n = "length (filter (\<lambda>c. snd c = Succeeds) calls)"
    have c1: "current_count ?cs1 (COUNTERS_key k) = current_count cs (COUNTERS_key k) + 1"
      using current_count_commit [of tz clock cs] by (simp add: k)
    have upt: "[0..<Suc ?n] = 0 # map Suc [0..<?n]"
      by (simp add: upt_conv_Cons map_Suc_upt del: upt_Suc)
    have first: "fst (generateOrderId tz clock Succeeds cs) =
        Inr (''T'' @ k @ padStart 4 CHR ''0'' (toString (current_count cs (COUNTERS_key k) + 1)))"
      using k by (simp add: generateOrderId_commit monthKey_def)
    have shift: "\<And>i. current_count cs (COUNTERS_key k) + 1 + 1 + int i
                     = current_count cs (COUNTERS_key k) + 1 + int (Suc i)"
      by simp
    from Cons.IH [OF rest, of ?cs1] show ?thesis
      unfolding c Succeeds allocations_Cons_fst allocations_Cons_snd first c1 shift
      by (simp add: upt comp_def del: upt_Suc allocations.simps)
  qed
qed

lemma sequence_of_id:
  "0 \<le> v \<Longrightarrow> sequence_of k (''T'' @ k @ padStart 4 CHR ''0'' (toString v)) = nat v"
  by (simp add: sequence_of_def toString_nonneg parse_nat_padStart)

section \<open>Evaluating the formatting and the calendar on concrete values\<close>

lemma digit_chars:
  "digit_char 0 = CHR ''0''" "digit_char 1 = CHR ''1''" "digit_char 2 = CHR ''2''"
  "digit_char 3 = CHR ''3''" "digit_char 4 = CHR ''4''" "digit_char 5 = CHR ''5''"
  "digit_char 6 = CHR ''6''" "digit_char 7 = CHR ''7''" "digit_char 8 = CHR ''8''"
  "digit_char 9 = CHR ''9''" "digit_char (Suc 0) = CHR ''1''"
  by code_simp+

lemma nat_toString_digit: "n < 10 \<Longrightarrow> nat_toString n = [digit_char n]"
  by (simp add: nat_toString.simps [of n])

lemma nat_toString_more:
  "10 \<le> n \<Longrightarrow> nat_toString n = nat_toString (n div 10) @ [digit_char (n mod 10)]"
  by (simp add: nat_toString.simps [of n])

lemma replicate_small:
  "replicate 1 c = [c]" "replicate 2 c = [c, c]" "replicate 3 c = [c, c, c]"
  by (simp_all add: numeral_2_eq_2 numeral_3_eq_3)

lemmas render = toString_def nat_toString_digit nat_toString_more digit_chars
  padStart_def slice_last_def replicate_small

lemma month_of_day:
  assumes "(clock + tz ''Asia/Amman'' clock * 60000) div 86400000 = day"
    and "civil_from_days day = (y, m, d)"
  shows "year_digits tz clock = slice_last 2 (toString y)"
    and "month_digits tz clock = padStart 2 CHR ''0'' (toString m)"
  using assms
  by (simp_all add: year_digits_def month_digits_def getJordanTime_def utcToZonedTime_def
        JORDAN_TIMEZONE_def msPerDay_def)

lemma civil_20269: "civil_from_days 20269 = (2025, 6, 30)"
  by (simp add: civil_from_days_def Let_def cong: let_weak_cong)

lemma civil_20270: "civil_from_days 20270 = (2025, 7, 1)"
  by (simp add: civil_from_days_def Let_def cong: let_weak_cong)

lemma civil_20271: "civil_from_days 20271 = (2025, 7, 2)"
  by (simp add: civil_from_days_def Let_def cong: let_weak_cong)

lemma civil_20272: "civil_from_days 20272 = (2025, 7, 3)"
  by (simp add: civil_from_days_def Let_def cong: let_weak_cong)

lemma monthKey_2506: "monthKey amman_plus3 1751313600000 = ''2506''"
proof -
  have day: "(1751313600000 + amman_plus3 ''Asia/Amman'' 1751313600000 * 60000) div 86400000
               = 20269"
    by (simp add: amman_plus3_def)
  show ?thesis
    unfolding monthKey_def month_of_day [where tz = amman_plus3 and clock = 1751313600000, OF day civil_20269] by (simp add: render)
qed

lemma monthKey_2507: "monthKey amman_plus3 1751320800000 = ''2507''"
proof -
  have day: "(1751320800000 + amman_plus3 ''Asia/Amman'' 1751320800000 * 60000) div 86400000
               = 20270"
    by (simp add: amman_plus3_def)
  show ?thesis
    unfolding monthKey_def month_of_day [where tz = amman_plus3 and clock = 1751320800000, OF day civil_20270] by (simp add: render)
qed

lemma monthKey_2507_b: "monthKey amman_plus3 1751320800500 = ''2507''"
proof -
  have day: "(1751320800500 + amman_plus3 ''Asia/Amman'' 1751320800500 * 60000) div 86400000
               = 20270"
    by (simp add: amman_plus3_def)
  show ?thesis
    unfolding monthKey_def month_of_day [where tz = amman_plus3 and clock = 1751320800500, OF day civil_20270] by (simp add: render)
qed

lemma monthKey_2507_c: "monthKey amman_plus3 1751407200000 = ''2507''"
proof -
  have day: "(1751407200000 + amman_plus3 ''Asia/Amman'' 1751407200000 * 60000) div 86400000
               = 20271"
    by (simp add: amman_plus3_def)
  show ?thesis
    unfolding monthKey_def month_of_day [where tz = amman_plus3 and clock = 1751407200000, OF day civil_20271] by (simp add: render)
qed

lemma monthKey_2507_d: "monthKey amman_plus3 1751493600000 = ''2507''"
proof -
  have day: "(1751493600000 + amman_plus3 ''Asia/Amman'' 1751493600000 * 60000) div 86400000
               = 20272"
    by (simp add: amman_plus3_def)
  show ?thesis
    unfolding monthKey_def month_of_day [where tz = amman_plus3 and clock = 1751493600000, OF day civil_20272] by (simp add: render)
qed

section \<open>The allocation of order identifiers\<close>

text \<open>
  C1.  Take any sequence of calls of \<open>generateOrderId\<close>, run one after the other,
  whose clocks all fall in the month \<open>k\<close>; some may fail to commit.  With \<open>c0\<close> the
  value of the month's counter before (0 when it does not exist) and \<open>n\<close> the number
  of calls that commit, the identifiers returned are, in order, those of the values
  \<open>c0 + 1, ..., c0 + n\<close>, and the counter is \<open>c0 + n\<close> afterwards: each committed
  call adds exactly 1 and returns the new value, a failed call adds nothing.  The
  sequence numbers carried by the identifiers are \<open>c0 + 1, ..., c0 + n\<close> and the
  identifiers are pairwise distinct; for a month without counter they are
  \<open>1, 2, ..., n\<close>.
\<close>

theorem allocations_gapless:
  assumes "\<forall>c \<in> set calls. monthKey tz (fst c) = k"
  shows "let key = COUNTERS_key k;
             c0 = current_count cs key;
             n = length (filter (\<lambda>c. snd c = Succeeds) calls);
             ids = ids_of (fst (allocations tz calls cs))
         in ids = map (\<lambda>j. ''T'' @ k @ padStart 4 CHR ''0'' (toString (c0 + int j))) [1..<Suc n]
          \<and> current_count (snd (allocations tz calls cs)) key = c0 + int n
          \<and> (0 \<le> c0 \<longrightarrow> map (sequence_of k) ids = map (\<lambda>j. nat c0 + j) [1..<Suc n]
                          \<and> distinct ids)
          \<and> (cs key = None \<longrightarrow> map (sequence_of k) ids = [1..<Suc n])"
proof -
  let ?key = "COUNTERS_key k"
  let ?c0 = "current_count cs ?key"
  let ?n = "length (filter (\<lambda>c. snd c = Succeeds) calls)"
  let ?ids = "ids_of (fst (allocations tz calls cs))"
  let ?f = "\<lambda>j. ''T'' @ k @ padStart 4 CHR ''0'' (toString (?c0 + int j))"
  have "?ids = map (\<lambda>i. ?f (Suc i)) [0..<?n]"
    using allocations_same_month [OF assms, of cs] by (simp add: add.assoc)
  also have "\<dots> = map ?f (map Suc [0..<?n])"
    by (simp add: comp_def)
  also have "map Suc [0..<?n] = [1..<Suc ?n]"
    by (simp add: map_Suc_upt)
  finally have ids: "?ids = map ?f [1..<Suc ?n]" .
  have cnt: "current_count (snd (allocations tz calls cs)) ?key = ?c0 + int ?n"
    using allocations_same_month [OF assms, of cs] by simp
  have seqs: "map (sequence_of k) ?ids = map (\<lambda>j. nat ?c0 + j) [1..<Suc ?n]" if "0 \<le> ?c0"
  proof -
    have "\<And>j. sequence_of k (?f j) = nat ?c0 + j"
      using that sequence_of_id [of "?c0 + int j" k for j] by (simp add: nat_add_distrib)
    then show ?thesis by (simp add: ids comp_def)
  qed
  have dist: "distinct ?ids" if "0 \<le> ?c0"
  proof -
    have "distinct (map (\<lambda>j. nat ?c0 + j) [1..<Suc ?n])"
      by (simp add: distinct_map inj_on_def)
    then have "distinct (map (sequence_of k) ?ids)"
      using seqs [OF that] by simp
    then show ?thesis by (simp add: distinct_map)
  qed
  have fresh: "map (sequence_of k) ?ids = [1..<Suc ?n]" if "cs ?key = None"
  proof -
    from that have "?c0 = 0" by (simp add: current_count_def)
    with seqs show ?thesis by (simp del: upt_Suc)
  qed
  from ids cnt seqs dist fresh show ?thesis
    unfolding Let_def by blast
qed

theorem allocations_gapless_witness:
  "map (\<lambda>c. monthKey amman_plus3 (fst c)) july_calls
     = [''2507'', ''2507'', ''2507'', ''2507'']
   \<and> (Map.empty :: counters) (COUNTERS_key ''2507'') = None
   \<and> ids_of (fst (allocations amman_plus3 july_calls Map.empty))
        = [''T25070001'', ''T25070002'', ''T25070003'']
   \<and> map (sequence_of ''2507'') (ids_of (fst (allocations amman_plus3 july_calls Map.empty)))
        = [1, 2, 3]
   \<and> distinct (ids_of (fst (allocations amman_plus3 july_calls Map.empty)))
   \<and> current_count (snd (allocations amman_plus3 july_calls Map.empty))
        (COUNTERS_key ''2507'') = 3"
proof -
  have h: "\<forall>c \<in> set july_calls. monthKey amman_plus3 (fst c) = ''2507''"
    by (simp add: july_calls_def monthKey_2507 monthKey_2507_b monthKey_2507_c
          monthKey_2507_d)
  have fresh: "(Map.empty :: counters) (COUNTERS_key ''2507'') = None"
    by simp
  have n: "length (filter (\<lambda>c. snd c = Succeeds) july_calls) = 3"
    by (simp add: july_calls_def)
  have upt: "[1..<Suc 3] = [1, 2, 3]"
    by (simp add: upt_conv_Cons)
  have c0: "current_count Map.empty (COUNTERS_key ''2507'') = 0"
    by (simp add: current_count_def)
  have strs: "map (\<lambda>j. ''T'' @ ''2507'' @ padStart 4 CHR ''0'' (toString (0 + int j))) [1, 2, 3]
                = [''T25070001'', ''T25070002'', ''T25070003'']"
    by (simp add: render)
  note all = allocations_gapless [OF h, of Map.empty, unfolded Let_def n c0 upt strs]
  from all have ids: "ids_of (fst (allocations amman_plus3 july_calls Map.empty))
        = [''T25070001'', ''T25070002'', ''T25070003'']"
    by (rule conjunct1)
  from all have cnt: "current_count (snd (allocations amman_plus3 july_calls Map.empty))
        (COUNTERS_key ''2507'') = 0 + int 3"
    by (rule conjunct1 [OF conjunct2])
  from all fresh have seqs:
    "map (sequence_of ''2507'') (ids_of (fst (allocations amman_plus3 july_calls Map.empty)))
        = [1, 2, 3]"
    by blast
  have "(0::int) \<le> 0" by simp
  with all have dist: "distinct (ids_of (fst (allocations amman_plus3 july_calls Map.empty)))"
    by blast
  from cnt have cnt3: "current_count (snd (allocations amman_plus3 july_calls Map.empty))
        (COUNTERS_key ''2507'') = 3"
    by simp
  have keys: "map (\<lambda>c. monthKey amman_plus3 (fst c)) july_calls
     = [''2507'', ''2507'', ''2507'', ''2507'']"
    by (simp add: july_calls_def monthKey_2507 monthKey_2507_b monthKey_2507_c
          monthKey_2507_d)
  from keys fresh ids seqs dist cnt3 show ?thesis by blast
qed

text \<open>
  Beyond 9999 the padding adds nothing and the sequence has five characters; the source
  has no handling of that case.
\<close>

lemma sequence_beyond_9999: "padStart 4 CHR ''0'' (toString 10000) = ''10000''"
  by (simp add: render)

lemma sequence_four_digits:
  assumes "1 \<le> v" and "v \<le> 9999"
  shows "length (padStart 4 CHR ''0'' (toString v)) = 4
    \<and> (\<forall>c \<in> set (padStart 4 CHR ''0'' (toString v)). is_digit c)
    \<and> int (parse_nat (padStart 4 CHR ''0'' (toString v))) = v"
proof -
  from assms have str: "toString v = nat_toString (nat v)" and small: "nat v < 10000"
    by (simp_all add: toString_nonneg)
  have "length (nat_toString (nat v)) \<le> 4"
    using small by (rule length_nat_toString_le4)
  then have "length (padStart 4 CHR ''0'' (toString v)) = 4"
    unfolding str by (rule length_padStart)
  moreover have "\<forall>c \<in> set (padStart 4 CHR ''0'' (toString v)). is_digit c"
    unfolding str by (rule digits_padStart)
  moreover have "int (parse_nat (padStart 4 CHR ''0'' (toString v))) = v"
    unfolding str using assms by (simp add: parse_nat_padStart)
  ultimately show ?thesis by blast
qed

text \<open>
  C3.  A committed allocation returns \<open>T\<close>, the two year digits, the two month digits
  and the sequence, where the sequence is the counter value after the increment, padded
  with zeros to four characters; that value is the stored counter of the month.  For a
  value from 1 to 9999 the sequence is exactly four decimal digits that read as the
  value.  When the month has no counter yet the sequence is \<open>0001\<close>; in particular after
  an allocation in another month, whose key differs, the first allocation of a month
  without counter returns the sequence \<open>0001\<close> under its own key.
\<close>

theorem generateOrderId_format:
  "\<exists>d'. generateOrderId tz clock Succeeds cs =
          (Inr (''T'' @ year_digits tz clock @ month_digits tz clock
                  @ padStart 4 CHR ''0'' (toString (count d'))),
           cs(COUNTERS_key (monthKey tz clock) \<mapsto> d'))
     \<and> count d' = current_count cs (COUNTERS_key (monthKey tz clock)) + 1
     \<and> (1 \<le> count d' \<and> count d' \<le> 9999 \<longrightarrow>
           length (padStart 4 CHR ''0'' (toString (count d'))) = 4
         \<and> (\<forall>c \<in> set (padStart 4 CHR ''0'' (toString (count d'))). is_digit c)
         \<and> int (parse_nat (padStart 4 CHR ''0'' (toString (count d')))) = count d')
     \<and> (cs (COUNTERS_key (monthKey tz clock)) = None \<longrightarrow>
           padStart 4 CHR ''0'' (toString (count d')) = ''0001'')
     \<and> (monthKey tz prev_clock \<noteq> monthKey tz clock
           \<and> prev_cs (COUNTERS_key (monthKey tz clock)) = None \<longrightarrow>
           generateOrderId tz clock Succeeds (snd (generateOrderId tz prev_clock prev_txn prev_cs)) =
             (Inr (''T'' @ year_digits tz clock @ month_digits tz clock @ ''0001''),
              (snd (generateOrderId tz prev_clock prev_txn prev_cs))
                (COUNTERS_key (monthKey tz clock) \<mapsto>
                   \<lparr>count = 1, month = monthKey tz clock\<rparr>)))"
proof -
  let ?key = "COUNTERS_key (monthKey tz clock)"
  let ?d' = "case cs ?key of
               None \<Rightarrow> \<lparr>count = 1, month = monthKey tz clock\<rparr>
             | Some d \<Rightarrow> d\<lparr>count := count d + 1\<rparr>"
  let ?seq = "padStart 4 CHR ''0'' (toString (count ?d'))"
  have cnt: "count ?d' = current_count cs ?key + 1"
    by (simp add: current_count_def split: option.splits)
  have ret: "generateOrderId tz clock Succeeds cs =
          (Inr (''T'' @ year_digits tz clock @ month_digits tz clock @ ?seq), cs(?key \<mapsto> ?d'))"
    by (simp only: generateOrderId_commit cnt)
  have four: "length ?seq = 4 \<and> (\<forall>c \<in> set ?seq. is_digit c) \<and> int (parse_nat ?seq) = count ?d'"
    if "1 \<le> count ?d' \<and> count ?d' \<le> 9999"
    using that sequence_four_digits [of "count ?d'"] by blast
  have first: "?seq = ''0001''" if "cs ?key = None"
    using that by (simp add: render)
  have boundary: "generateOrderId tz clock Succeeds (snd (generateOrderId tz prev_clock prev_txn prev_cs)) =
             (Inr (''T'' @ year_digits tz clock @ month_digits tz clock @ ''0001''),
              (snd (generateOrderId tz prev_clock prev_txn prev_cs))
                (?key \<mapsto> \<lparr>count = 1, month = monthKey tz clock\<rparr>))"
    if "monthKey tz prev_clock \<noteq> monthKey tz clock \<and> prev_cs ?key = None"
  proof -
    from that have "?key \<noteq> COUNTERS_key (monthKey tz prev_clock)"
      by (auto simp add: COUNTERS_key_inj)
    then have "snd (generateOrderId tz prev_clock prev_txn prev_cs) ?key = prev_cs ?key"
      by (rule generateOrderId_other_key)
    with that have "snd (generateOrderId tz prev_clock prev_txn prev_cs) ?key = None"
      by simp
    then show ?thesis
      by (simp add: generateOrderId_commit current_count_def render)
  qed
  show ?thesis
    by (rule exI [where x = "?d'"]) (use ret cnt four first boundary in blast)
qed

theorem generateOrderId_format_witness:
  "monthKey amman_plus3 1751313600000 \<noteq> monthKey amman_plus3 1751320800000
   \<and> (Map.empty :: counters) (COUNTERS_key (monthKey amman_plus3 1751320800000)) = None
   \<and> fst (generateOrderId amman_plus3 1751313600000 Succeeds Map.empty) = Inr ''T25060001''
   \<and> fst (generateOrderId amman_plus3 1751320800000 Succeeds
            (snd (generateOrderId amman_plus3 1751313600000 Succeeds Map.empty)))
        = Inr ''T25070001''"
proof -
  have h1: "monthKey amman_plus3 1751313600000 \<noteq> monthKey amman_plus3 1751320800000"
    by (simp add: monthKey_2506 monthKey_2507)
  have h2: "(Map.empty :: counters) (COUNTERS_key (monthKey amman_plus3 1751320800000)) = None"
    by simp
  have june: "year_digits amman_plus3 1751313600000 @ month_digits amman_plus3 1751313600000
                = ''2506''"
    using monthKey_2506 by (simp add: monthKey_def)
  have july: "year_digits amman_plus3 1751320800000 @ month_digits amman_plus3 1751320800000
                = ''2507''"
    using monthKey_2507 by (simp add: monthKey_def)
  have h0: "(Map.empty :: counters) (COUNTERS_key (monthKey amman_plus3 1751313600000)) = None"
    by simp
  from generateOrderId_format [where tz = amman_plus3 and clock = 1751313600000
      and cs = Map.empty] h0
  obtain d' where "generateOrderId amman_plus3 1751313600000 Succeeds Map.empty =
          (Inr (''T'' @ year_digits amman_plus3 1751313600000
                  @ month_digits amman_plus3 1751313600000
                  @ padStart 4 CHR ''0'' (toString (count d'))),
           Map.empty(COUNTERS_key (monthKey amman_plus3 1751313600000) \<mapsto> d'))"
    and "padStart 4 CHR ''0'' (toString (count d')) = ''0001''"
    by blast
  with june have first: "fst (generateOrderId amman_plus3 1751313600000 Succeeds Map.empty)
                           = Inr ''T25060001''"
    by simp
  from generateOrderId_format [where tz = amman_plus3 and clock = 1751320800000
      and cs = Map.empty and prev_clock = 1751313600000 and prev_txn = Succeeds and prev_cs = Map.empty]
    h1 h2
  have "generateOrderId amman_plus3 1751320800000 Succeeds
            (snd (generateOrderId amman_plus3 1751313600000 Succeeds Map.empty)) =
          (Inr (''T'' @ year_digits amman_plus3 1751320800000
                  @ month_digits amman_plus3 1751320800000 @ ''0001''),
           (snd (generateOrderId amman_plus3 1751313600000 Succeeds Map.empty))
             (COUNTERS_key (monthKey amman_plus3 1751320800000) \<mapsto>
                \<lparr>count = 1, month = monthKey amman_plus3 1751320800000\<rparr>))"
    by blast
  with july have second: "fst (generateOrderId amman_plus3 1751320800000 Succeeds
            (snd (generateOrderId amman_plus3 1751313600000 Succeeds Map.empty)))
        = Inr ''T25070001''"
    by simp
  from h1 h2 first second show ?thesis by blast
qed

text \<open>
  C2.  The month of an allocation is the calendar month of the wall clock of the zone
  \<open>Asia/Amman\<close> at the instant of the call: when \<open>(y, m, d)\<close> is the calendar date of
  the instant shifted by the zone's offset, the identifier returned is \<open>T\<close>, the last two
  digits of \<open>y\<close>, \<open>m\<close> padded to two digits, and a sequence, and the one counter written
  is the one whose key is \<open>orders_\<close> followed by these four digits.  Neither the UTC date
  of the instant nor any zone of the server enters.
\<close>

theorem generateOrderId_jordan_month:
  assumes "civil_from_days ((clock + tz ''Asia/Amman'' clock * 60000) div 86400000) = (y, m, d)"
  shows "\<exists>seq d'. generateOrderId tz clock Succeeds cs =
           (Inr (''T'' @ slice_last 2 (toString y) @ padStart 2 CHR ''0'' (toString m) @ seq),
            cs(''orders_'' @ slice_last 2 (toString y) @ padStart 2 CHR ''0'' (toString m)
                 \<mapsto> d'))"
proof -
  have yy: "year_digits tz clock = slice_last 2 (toString y)"
    and mm: "month_digits tz clock = padStart 2 CHR ''0'' (toString m)"
    using assms
    by (simp_all add: year_digits_def month_digits_def getJordanTime_def utcToZonedTime_def
          JORDAN_TIMEZONE_def msPerDay_def)
  have key: "COUNTERS_key (monthKey tz clock) =
               ''orders_'' @ slice_last 2 (toString y) @ padStart 2 CHR ''0'' (toString m)"
    by (simp add: COUNTERS_key_def monthKey_def yy mm)
  show ?thesis
    unfolding generateOrderId_commit key yy mm by blast
qed

theorem generateOrderId_jordan_month_witness:
  "civil_from_days ((1751320800000 + amman_plus3 ''Asia/Amman'' 1751320800000 * 60000)
       div 86400000) = (2025, 7, 1)
   \<and> civil_from_days (1751320800000 div 86400000) = (2025, 6, 30)
   \<and> (\<exists>seq d'. generateOrderId amman_plus3 1751320800000 Succeeds Map.empty =
           (Inr (''T2507'' @ seq), [''orders_2507'' \<mapsto> d']))"
proof -
  have zoned: "civil_from_days ((1751320800000 + amman_plus3 ''Asia/Amman'' 1751320800000 * 60000)
       div 86400000) = (2025, 7, 1)"
    by (simp add: amman_plus3_def civil_20270)
  have utc: "civil_from_days (1751320800000 div 86400000) = (2025, 6, 30)"
    by (simp add: civil_20269)
  have yy: "slice_last 2 (toString 2025) = ''25''"
    and mm: "padStart 2 CHR ''0'' (toString 7) = ''07''"
    by (simp_all add: render)
  from generateOrderId_jordan_month [where tz = amman_plus3 and clock = 1751320800000
      and cs = Map.empty, OF zoned]
  have "\<exists>seq d'. generateOrderId amman_plus3 1751320800000 Succeeds Map.empty =
           (Inr (''T2507'' @ seq), [''orders_2507'' \<mapsto> d'])"
    unfolding yy mm by simp
  with zoned utc show ?thesis by blast
qed

end
